theory Spec2Isabelle
  imports Main "HOL-Library.Sublist"
begin

section \<open>Python values the service handles\<close>

text \<open>
  Identifiers and messages are \<^typ>\<open>string\<close>. The only string operations of the
  sources are a prefix test against ASCII literals and a replacement of single ASCII
  characters, which act alike on code points and on the bytes of their UTF-8 encoding.

  A raised exception is a value. Python's \<^verbatim>\<open>except Exception\<close> catches the instances of
  \<^verbatim>\<open>Exception\<close> and lets the other instances of \<^verbatim>\<open>BaseException\<close>
  (\<^verbatim>\<open>KeyboardInterrupt\<close>, \<^verbatim>\<open>SystemExit\<close>, \<^verbatim>\<open>GeneratorExit\<close>) pass, so the
  model keeps the two classes apart. Each carries the text that \<^verbatim>\<open>str(e)\<close> returns.
\<close>

datatype py_exception =
    PyException string
  | PyBaseException string

fun isinstance_Exception :: "py_exception \<Rightarrow> bool" where
  "isinstance_Exception (PyException msg) = True"
| "isinstance_Exception (PyBaseException msg) = False"

fun str_of_exception :: "py_exception \<Rightarrow> string" where
  "str_of_exception (PyException msg) = msg"
| "str_of_exception (PyBaseException msg) = msg"

text \<open>\<^verbatim>\<open>s.startswith(p)\<close> for one prefix, and for a tuple of prefixes (true when any matches).\<close>

fun startswith :: "string \<Rightarrow> string \<Rightarrow> bool" where
  "startswith s [] = True"
| "startswith [] (p # ps) = False"
| "startswith (c # s) (p # ps) = (c = p \<and> startswith s ps)"

fun startswith_any :: "string \<Rightarrow> string list \<Rightarrow> bool" where
  "startswith_any s [] = False"
| "startswith_any s (p # ps) = (startswith s p \<or> startswith_any s ps)"

text \<open>\<^verbatim>\<open>s.replace(old, new)\<close> where \<^verbatim>\<open>old\<close> and \<^verbatim>\<open>new\<close> are single characters.\<close>

fun replace_char :: "char \<Rightarrow> char \<Rightarrow> string \<Rightarrow> string" where
  "replace_char old new [] = []"
| "replace_char old new (c # s) = (if c = old then new else c) # replace_char old new s"

section \<open>The agent framework's objects\<close>

text \<open>
  A run response carries its text in \<^verbatim>\<open>content\<close>; whatever else it carries (tool calls,
  intermediate steps) is the record's extension and is never read by this service.
\<close>

record RunResponse =
  content :: string

text \<open>
  What an asynchronous iterator does when it is advanced: it produces a chunk and
  goes on, it ends (\<^verbatim>\<open>StopAsyncIteration\<close>), or it raises. A run produces finitely
  many chunks.
\<close>

datatype 'c run_stream =
    Yield 'c "'c run_stream"
  | StopAsyncIteration
  | Raise py_exception

text \<open>
  An agent offers \<^verbatim>\<open>arun(message, stream=False)\<close>, here \<open>arun\<close>, and
  \<^verbatim>\<open>arun(message, stream=True)\<close>, here \<open>arun_stream\<close>. Either call may raise.
\<close>

record 'r Agent =
  arun :: "string \<Rightarrow> py_exception + 'r RunResponse_scheme"
  arun_stream :: "string \<Rightarrow> py_exception + 'r RunResponse_scheme run_stream"

text \<open>
  The calls this service makes to its collaborators, in the order made: the two builders
  with their keyword arguments (model_id, user_id, session_id, debug_mode), and an
  agent's run with its message and stream flag.
\<close>

datatype call =
    GetSage string "string option" "string option" bool
  | GetScholar string "string option" "string option" bool
  | Arun string bool

fun is_builder_call :: "call \<Rightarrow> bool" where
  "is_builder_call (GetSage m u s d) = True"
| "is_builder_call (GetScholar m u s d) = True"
| "is_builder_call (Arun msg st) = False"

fun is_run_call :: "call \<Rightarrow> bool" where
  "is_run_call (Arun msg st) = True"
| "is_run_call c = False"

fun call_model_id :: "call \<Rightarrow> string option" where
  "call_model_id (GetSage m u s d) = Some m"
| "call_model_id (GetScholar m u s d) = Some m"
| "call_model_id (Arun msg st) = None"

text \<open>
  The builders of \<^verbatim>\<open>agents.sage\<close> and \<^verbatim>\<open>agents.scholar\<close> are parameters: any pair of
  functions from the keyword arguments to an agent or a raised exception.
\<close>

record 'r Builders =
  get_sage :: "string \<Rightarrow> string option \<Rightarrow> string option \<Rightarrow> bool \<Rightarrow> py_exception + 'r Agent"
  get_scholar :: "string \<Rightarrow> string option \<Rightarrow> string option \<Rightarrow> bool \<Rightarrow> py_exception + 'r Agent"

section \<open>agents/operator.py\<close>

datatype AgentType = SAGE | SCHOLAR

fun AgentType_value :: "AgentType \<Rightarrow> string" where
  "AgentType_value SAGE = ''sage''"
| "AgentType_value SCHOLAR = ''scholar''"

text \<open>Iterating an \<^verbatim>\<open>Enum\<close> class visits its members in definition order.\<close>

definition AgentType_members :: "AgentType list" where
  "AgentType_members = [SAGE, SCHOLAR]"

datatype ModelProvider = OPENAI | GROQ

fun ModelProvider_value :: "ModelProvider \<Rightarrow> string" where
  "ModelProvider_value OPENAI = ''openai''"
| "ModelProvider_value GROQ = ''groq''"

definition get_available_agents :: "string list" where
  "get_available_agents = map AgentType_value AgentType_members"

definition get_model_provider :: "string \<Rightarrow> ModelProvider" where
  "get_model_provider model_id =
     (if startswith_any model_id [''llama'', ''mixtral''] then GROQ else OPENAI)"

definition get_available_models :: "(string \<times> ModelProvider) list" where
  "get_available_models =
     [(''gpt-4o'', OPENAI),
      (''o3-mini'', OPENAI),
      (''llama-3.3-70b-versatile'', GROQ),
      (''llama-3.3-8b-versatile'', GROQ),
      (''mixtral-8x7b-32768'', GROQ)]"

text \<open>
  What a caller can pass as \<^verbatim>\<open>agent_id\<close>: a member of \<^verbatim>\<open>AgentType\<close>, \<^verbatim>\<open>None\<close> (the
  default), or, the annotation not being enforced, some other value, here a string.
  A plain \<^verbatim>\<open>Enum\<close> member equals only itself, so \<^verbatim>\<open>"sage" == AgentType.SAGE\<close> is false.
\<close>

datatype agent_id_arg =
    Member AgentType
  | PyNone
  | PyStr string

text \<open>
  \<^verbatim>\<open>get_agent\<close>. A keyword argument with a default that is not \<^verbatim>\<open>None\<close> is an option:
  \<open>None\<close> when the caller leaves it out. The result is the log of builder calls with
  what the builder returned or raised.
\<close>

definition get_agent ::
  "'r Builders \<Rightarrow> string option \<Rightarrow> agent_id_arg \<Rightarrow> string option \<Rightarrow> string option \<Rightarrow> bool option
     \<Rightarrow> call list \<times> (py_exception + 'r Agent)" where
  "get_agent builders model_id agent_id user_id session_id debug_mode =
     (let model_id = (case model_id of None \<Rightarrow> ''gpt-4o'' | Some m \<Rightarrow> m);
          debug_mode = (case debug_mode of None \<Rightarrow> True | Some d \<Rightarrow> d)
      in if agent_id = Member SAGE
         then ([GetSage model_id user_id session_id debug_mode],
               get_sage builders model_id user_id session_id debug_mode)
         else ([GetScholar model_id user_id session_id debug_mode],
               get_scholar builders model_id user_id session_id debug_mode))"

section \<open>api/routes/agents.py\<close>

subsection \<open>The model enumeration\<close>

text \<open>
  \<^verbatim>\<open>Model = Enum('Model', {name(model_id): model_id for model_id, _ in model_list})\<close>:
  one member per catalog entry, named by the identifier with \<^verbatim>\<open>-\<close> and \<^verbatim>\<open>.\<close> replaced
  by \<^verbatim>\<open>_\<close>, valued by the identifier. A member is its (name, value) pair, and the type
  \<open>Model\<close> has exactly the members built from the catalog.
\<close>

definition model_list :: "(string \<times> ModelProvider) list" where
  "model_list = get_available_models"

definition member_name :: "string \<Rightarrow> string" where
  "member_name model_id = replace_char CHR ''.'' CHR ''_'' (replace_char CHR ''-'' CHR ''_'' model_id)"

definition Model_members :: "(string \<times> string) list" where
  "Model_members = map (\<lambda>(model_id, _). (member_name model_id, model_id)) model_list"

typedef Model = "set Model_members"
  by (rule exI [of _ "(''gpt_4o'', ''gpt-4o'')"])
     (simp add: Model_members_def model_list_def get_available_models_def member_name_def)

definition Model_name :: "Model \<Rightarrow> string" where
  "Model_name m = fst (Rep_Model m)"

definition Model_value :: "Model \<Rightarrow> string" where
  "Model_value m = snd (Rep_Model m)"

text \<open>\<^verbatim>\<open>Model.<name>\<close>: the member of that name, if there is one.\<close>

definition Model_attr :: "string \<Rightarrow> Model option" where
  "Model_attr name = map_option Abs_Model (find (\<lambda>m. fst m = name) Model_members)"

subsection \<open>Responses\<close>

definition HTTP_200_OK :: nat where
  "HTTP_200_OK = 200"

definition HTTP_404_NOT_FOUND :: nat where
  "HTTP_404_NOT_FOUND = 404"

text \<open>
  Modelled from the spec: the status the web framework, which is not part of the sources,
  gives a route that declares none (\<^verbatim>\<open>GET /agents\<close>: "Status 200").
\<close>

definition default_status_code :: nat where
  "default_status_code = 200"

text \<open>
  Modelled from the spec: the status of the web framework's validation error
  ("status 422 (transport-level enum validation failure)").
\<close>

definition HTTP_422_UNPROCESSABLE_ENTITY :: nat where
  "HTTP_422_UNPROCESSABLE_ENTITY = 422"

text \<open>
  A response body: a JSON string, a JSON array of strings, or a streaming response
  with the fragments the generator yielded, the exception that ended it (if one did) and
  the media type.
\<close>

datatype body =
    JSON_str string
  | JSON_list "string list"
  | StreamingResponse "string list" "py_exception option" string

text \<open>
  How the handling of a request ends: a response with its status, a raised
  \<^verbatim>\<open>HTTPException(status_code, detail)\<close>, an exception no handler caught, or the
  framework's validation error.
\<close>

datatype outcome =
    Response nat body
  | HTTPException nat string
  | Unhandled py_exception
  | RequestValidationError nat

subsection \<open>Handlers\<close>

definition list_agents :: outcome where
  "list_agents = Response default_status_code (JSON_list get_available_agents)"

text \<open>
  \<^verbatim>\<open>chat_response_streamer\<close>: the calls made, the fragments yielded in order, and the
  exception that ended the generator, if one did. The loop appends one fragment per chunk.
\<close>

record generator_run =
  calls :: "call list"
  yielded :: "string list"
  raised :: "py_exception option"

fun async_for :: "'r RunResponse_scheme run_stream \<Rightarrow> string list \<Rightarrow> string list \<times> py_exception option" where
  "async_for (Yield chunk rest) out = async_for rest (out @ [content chunk])"
| "async_for StopAsyncIteration out = (out, None)"
| "async_for (Raise e) out = (out, Some e)"

definition chat_response_streamer :: "'r Agent \<Rightarrow> string \<Rightarrow> generator_run" where
  "chat_response_streamer agent message =
     (case arun_stream agent message of
        Inl e \<Rightarrow> \<lparr>calls = [Arun message True], yielded = [], raised = Some e\<rparr>
      | Inr run_response \<Rightarrow>
          (case async_for run_response [] of
             (out, fin) \<Rightarrow> \<lparr>calls = [Arun message True], yielded = out, raised = fin\<rparr>))"

record RunRequest =
  message :: string
  stream :: bool
  model :: Model
  user_id :: "string option"
  session_id :: "string option"

definition RunRequest_stream_default :: bool where
  "RunRequest_stream_default = True"

definition RunRequest_model_default :: "Model option" where
  "RunRequest_model_default = Model_attr ''gpt_4o''"

text \<open>
  \<^verbatim>\<open>run_agent\<close> with its route's \<^verbatim>\<open>status_code\<close>. The log holds every call made for the
  request, those of the returned generator included (the framework runs it while it
  sends the response). The debug log line of the handler has no part in the result.
\<close>

definition run_agent :: "'r Builders \<Rightarrow> AgentType \<Rightarrow> RunRequest \<Rightarrow> call list \<times> outcome" where
  "run_agent builders agent_id body =
     (case get_agent builders (Some (Model_value (model body))) (Member agent_id)
             (user_id body) (session_id body) None of
        (built, Inl e) \<Rightarrow>
          if isinstance_Exception e
          then (built, HTTPException HTTP_404_NOT_FOUND (''Agent not found: '' @ str_of_exception e))
          else (built, Unhandled e)
      | (built, Inr agent) \<Rightarrow>
          if stream body
          then (let g = chat_response_streamer agent (message body)
                in (built @ calls g,
                    Response HTTP_200_OK (StreamingResponse (yielded g) (raised g) ''text/event-stream'')))
          else (case arun agent (message body) of
                  Inl e \<Rightarrow> (built @ [Arun (message body) False], Unhandled e)
                | Inr response \<Rightarrow>
                    (built @ [Arun (message body) False],
                     Response HTTP_200_OK (JSON_str (content response)))))"

subsection \<open>Request validation\<close>

text \<open>
  The transport layer validates a request to \<^verbatim>\<open>POST /agents/{agent_id}/runs\<close> from the
  annotations of \<^verbatim>\<open>run_agent\<close> (\<^verbatim>\<open>agent_id: AgentType\<close>, \<^verbatim>\<open>body: RunRequest\<close>) before
  the handler runs. The web framework that does so is not part of the sources; the
  definitions of this subsection follow the spec.
\<close>

text \<open>
  Modelled from the spec: the framework's reading of the path value, missing from the
  sources: it "must be one of the two enumerated variants", that is the value of a member of
  \<^verbatim>\<open>AgentType\<close>.
\<close>

definition AgentType_of_value :: "string \<Rightarrow> AgentType option" where
  "AgentType_of_value s = find (\<lambda>a. AgentType_value a = s) AgentType_members"

text \<open>
  Modelled from the spec: the framework's reading of the model selector, missing from the
  sources ("the model catalog driving request validation"): the string must be the value of
  a member of \<^verbatim>\<open>Model\<close>.
\<close>

definition Model_of_value :: "string \<Rightarrow> Model option" where
  "Model_of_value s = map_option Abs_Model (find (\<lambda>m. snd m = s) Model_members)"

text \<open>A request body by its fields, \<open>None\<close> for a field left out.\<close>

record RunRequest_fields =
  message_field :: "string option"
  stream_field :: "bool option"
  model_field :: "string option"
  user_id_field :: "string option"
  session_id_field :: "string option"

text \<open>
  Modelled from the spec: the framework's validation of the body against \<^verbatim>\<open>RunRequest\<close>,
  missing from the sources ("a body containing a free-text message, a stream flag (default:
  true), a model selector (default: the first catalog entry), and optional user/session
  identifiers"; a "malformed body" is rejected). The message is required; a field left
  out takes the default that \<^verbatim>\<open>RunRequest\<close> declares.
\<close>

definition validate_RunRequest :: "RunRequest_fields \<Rightarrow> RunRequest option" where
  "validate_RunRequest f =
     (case message_field f of
        None \<Rightarrow> None
      | Some msg \<Rightarrow>
          (case (case model_field f of None \<Rightarrow> RunRequest_model_default | Some s \<Rightarrow> Model_of_value s) of
             None \<Rightarrow> None
           | Some m \<Rightarrow>
               Some \<lparr>message = msg,
                     stream = (case stream_field f of None \<Rightarrow> RunRequest_stream_default | Some b \<Rightarrow> b),
                     model = m,
                     user_id = user_id_field f,
                     session_id = session_id_field f\<rparr>))"

text \<open>
  Modelled from the spec: the framework's dispatch of \<^verbatim>\<open>POST /agents/{agent_id}/runs\<close>,
  missing from the sources: a request that fails validation is "rejected by the transport
  layer before application code executes" with status 422, and \<^verbatim>\<open>run_agent\<close> handles
  any other.
\<close>

definition post_agent_runs :: "'r Builders \<Rightarrow> string \<Rightarrow> RunRequest_fields \<Rightarrow> call list \<times> outcome" where
  "post_agent_runs builders path_agent_id f =
     (case AgentType_of_value path_agent_id of
        None \<Rightarrow> ([], RequestValidationError HTTP_422_UNPROCESSABLE_ENTITY)
      | Some agent_id \<Rightarrow>
          (case validate_RunRequest f of
             None \<Rightarrow> ([], RequestValidationError HTTP_422_UNPROCESSABLE_ENTITY)
           | Some body \<Rightarrow> run_agent builders agent_id body))"

section \<open>What a stream produced\<close>

text \<open>
  The chunks a streaming run produced, in order, and the exception that ended it, if one
  did: the reference against which the relay is compared.
\<close>

fun produced :: "'c run_stream \<Rightarrow> 'c list" where
  "produced (Yield c rest) = c # produced rest"
| "produced StopAsyncIteration = []"
| "produced (Raise e) = []"

fun ended_by :: "'c run_stream \<Rightarrow> py_exception option" where
  "ended_by (Yield c rest) = ended_by rest"
| "ended_by StopAsyncIteration = None"
| "ended_by (Raise e) = Some e"

section \<open>Sample inputs\<close>

text \<open>
  An agent that echoes its message; builders of which Sage succeeds and Scholar raises a
  \<^verbatim>\<open>ValueError\<close>-like exception; builders that raise \<^verbatim>\<open>SystemExit\<close>; a request and a
  request body.
\<close>

definition example_agent :: "unit Agent" where
  "example_agent =
     \<lparr>arun = (\<lambda>msg. Inr \<lparr>content = ''echo: '' @ msg\<rparr>),
      arun_stream = (\<lambda>msg. Inr (Yield \<lparr>content = ''echo: ''\<rparr> (Yield \<lparr>content = msg\<rparr> StopAsyncIteration)))\<rparr>"

definition example_builders :: "unit Builders" where
  "example_builders =
     \<lparr>get_sage = (\<lambda>m u s d. Inr example_agent),
      get_scholar = (\<lambda>m u s d. Inl (PyException ''no scholar''))\<rparr>"

definition exiting_builders :: "unit Builders" where
  "exiting_builders =
     \<lparr>get_sage = (\<lambda>m u s d. Inl (PyBaseException ''missing credentials'')),
      get_scholar = (\<lambda>m u s d. Inl (PyBaseException ''missing credentials''))\<rparr>"

definition example_request :: RunRequest where
  "example_request =
     \<lparr>message = ''hello'', stream = False, model = Abs_Model (''gpt_4o'', ''gpt-4o''),
      user_id = None, session_id = None\<rparr>"

definition example_fields :: RunRequest_fields where
  "example_fields =
     \<lparr>message_field = Some ''hello'', stream_field = Some False, model_field = None,
      user_id_field = None, session_id_field = None\<rparr>"

text \<open>
  Builders whose result tells the \<^verbatim>\<open>debug_mode\<close> they were given: Sage returns an agent that
  answers \<^verbatim>\<open>debug\<close> or \<^verbatim>\<open>quiet\<close>, Scholar raises with that message.
\<close>

definition flag_agent :: "bool \<Rightarrow> unit Agent" where
  "flag_agent d =
     \<lparr>arun = (\<lambda>msg. Inr \<lparr>content = (if d then ''debug'' else ''quiet'')\<rparr>),
      arun_stream = (\<lambda>msg. Inr (Yield \<lparr>content = (if d then ''debug'' else ''quiet'')\<rparr> StopAsyncIteration))\<rparr>"

definition flag_builders :: "unit Builders" where
  "flag_builders =
     \<lparr>get_sage = (\<lambda>m u s d. Inr (flag_agent d)),
      get_scholar = (\<lambda>m u s d. if d then Inl (PyException ''debug'') else Inl (PyException ''quiet''))\<rparr>"

section \<open>Auxiliary facts\<close>

lemma startswith_iff_prefix: "startswith s p \<longleftrightarrow> prefix p s"
  by (induction s p rule: startswith.induct) auto

lemma Model_members_eq:
  "Model_members =
     [(''gpt_4o'', ''gpt-4o''), (''o3_mini'', ''o3-mini''),
      (''llama_3_3_70b_versatile'', ''llama-3.3-70b-versatile''),
      (''llama_3_3_8b_versatile'', ''llama-3.3-8b-versatile''),
      (''mixtral_8x7b_32768'', ''mixtral-8x7b-32768'')]"
  by (simp add: Model_members_def model_list_def get_available_models_def member_name_def)

text \<open>
  Member names and member values are pairwise distinct, so the dictionary keeps all five
  entries and the enumeration has no alias.
\<close>

lemma Model_members_distinct:
  "distinct (map fst Model_members) \<and> distinct (map snd Model_members)"
  by (simp add: Model_members_eq)

lemma Model_value_Abs: "x \<in> set Model_members \<Longrightarrow> Model_value (Abs_Model x) = snd x"
  by (simp add: Model_value_def Abs_Model_inverse)

lemma Model_value_in_catalog: "Model_value m \<in> set (map fst get_available_models)"
proof -
  have "Rep_Model m \<in> set Model_members" by (rule Rep_Model)
  then show ?thesis
    by (force simp: Model_value_def Model_members_def model_list_def)
qed

lemma RunRequest_model_default_value:
  "RunRequest_model_default = Some (Abs_Model (''gpt_4o'', ''gpt-4o''))"
  by (simp add: RunRequest_model_default_def Model_attr_def Model_members_eq)

lemma get_agent_unfold:
  "get_agent bs mo a u s d =
     (if a = Member SAGE
      then ([GetSage (case mo of None \<Rightarrow> ''gpt-4o'' | Some m \<Rightarrow> m) u s (case d of None \<Rightarrow> True | Some b \<Rightarrow> b)],
            get_sage bs (case mo of None \<Rightarrow> ''gpt-4o'' | Some m \<Rightarrow> m) u s (case d of None \<Rightarrow> True | Some b \<Rightarrow> b))
      else ([GetScholar (case mo of None \<Rightarrow> ''gpt-4o'' | Some m \<Rightarrow> m) u s (case d of None \<Rightarrow> True | Some b \<Rightarrow> b)],
            get_scholar bs (case mo of None \<Rightarrow> ''gpt-4o'' | Some m \<Rightarrow> m) u s (case d of None \<Rightarrow> True | Some b \<Rightarrow> b)))"
  by (simp add: get_agent_def Let_def)

lemma async_for_acc: "async_for s out = (out @ map content (produced s), ended_by s)"
  by (induction s arbitrary: out) simp_all

lemma calls_streamer: "calls (chat_response_streamer agent msg) = [Arun msg True]"
  by (simp add: chat_response_streamer_def split: sum.splits prod.splits)

text \<open>The call log of \<^verbatim>\<open>run_agent\<close>: one builder call, then run calls only.\<close>

lemma run_agent_calls:
  "\<exists>rest. fst (run_agent bs aid body) =
      (if aid = SAGE
       then GetSage (Model_value (model body)) (user_id body) (session_id body) True
       else GetScholar (Model_value (model body)) (user_id body) (session_id body) True) # rest
     \<and> list_all is_run_call rest"
  by (simp add: run_agent_def get_agent_unfold calls_streamer Let_def split: sum.splits)

lemma run_calls_no_builder: "list_all is_run_call rest \<Longrightarrow> filter is_builder_call rest = []"
  by (induction rest) (auto elim: is_run_call.elims)

lemma run_calls_no_model:
  "list_all is_run_call rest \<Longrightarrow>
     list_all (\<lambda>c. case call_model_id c of None \<Rightarrow> True
                  | Some m \<Rightarrow> m \<in> set (map fst get_available_models)) rest"
  by (induction rest) (auto elim: is_run_call.elims)

lemma run_agent_catalog:
  "list_all (\<lambda>c. case call_model_id c of None \<Rightarrow> True
                  | Some m \<Rightarrow> m \<in> set (map fst get_available_models))
     (fst (run_agent bs aid body))"
proof -
  obtain rest where r: "fst (run_agent bs aid body) =
      (if aid = SAGE
       then GetSage (Model_value (model body)) (user_id body) (session_id body) True
       else GetScholar (Model_value (model body)) (user_id body) (session_id body) True) # rest"
    and l: "list_all is_run_call rest"
    using run_agent_calls [of bs aid body] by blast
  show ?thesis
    unfolding r using run_calls_no_model [OF l] Model_value_in_catalog [of "model body"]
    by (simp del: set_map)
qed

lemma AgentType_of_value_None: "p \<noteq> ''sage'' \<Longrightarrow> p \<noteq> ''scholar'' \<Longrightarrow> AgentType_of_value p = None"
  by (auto simp: AgentType_of_value_def AgentType_members_def)

lemma AgentType_of_value_Some:
  "AgentType_of_value ''sage'' = Some SAGE" "AgentType_of_value ''scholar'' = Some SCHOLAR"
  by (simp_all add: AgentType_of_value_def AgentType_members_def)

lemma Model_of_value_None:
  "s \<notin> set (map fst get_available_models) \<Longrightarrow> Model_of_value s = None"
  by (force simp: Model_of_value_def Model_members_def model_list_def find_None_iff)

section \<open>The agent factory\<close>

text \<open>
  Claim C1: when \<^verbatim>\<open>agent_id\<close> equals \<^verbatim>\<open>AgentType.SAGE\<close>, \<^verbatim>\<open>get_agent\<close> calls the Sage
  builder exactly once with \<^verbatim>\<open>model_id\<close>, \<^verbatim>\<open>user_id\<close>, \<^verbatim>\<open>session_id\<close> and \<^verbatim>\<open>debug_mode\<close>
  as given, and returns what it returns (or raises what it raises); for every other
  \<^verbatim>\<open>agent_id\<close>, among them \<^verbatim>\<open>SCHOLAR\<close>, \<^verbatim>\<open>None\<close> and a value that is no member, it does
  the same with the Scholar builder. The call log has that one call and no other.
\<close>

theorem C1_get_agent_dispatch:
  "(aid = Member SAGE \<longrightarrow>
      get_agent bs (Some mid) aid uid sid (Some dbg) =
        ([GetSage mid uid sid dbg], get_sage bs mid uid sid dbg))
   \<and> (aid \<noteq> Member SAGE \<longrightarrow>
      get_agent bs (Some mid) aid uid sid (Some dbg) =
        ([GetScholar mid uid sid dbg], get_scholar bs mid uid sid dbg))
   \<and> get_agent bs (Some mid) (Member SCHOLAR) uid sid (Some dbg) =
        ([GetScholar mid uid sid dbg], get_scholar bs mid uid sid dbg)
   \<and> get_agent bs (Some mid) PyNone uid sid (Some dbg) =
        ([GetScholar mid uid sid dbg], get_scholar bs mid uid sid dbg)
   \<and> get_agent bs (Some mid) (PyStr other) uid sid (Some dbg) =
        ([GetScholar mid uid sid dbg], get_scholar bs mid uid sid dbg)"
  by (simp add: get_agent_def)

theorem C1_witness:
  "get_agent example_builders (Some ''o3-mini'') (Member SAGE) (Some ''u1'') None (Some False) =
     ([GetSage ''o3-mini'' (Some ''u1'') None False], Inr example_agent)
   \<and> get_agent example_builders (Some ''o3-mini'') (PyStr ''sage'') (Some ''u1'') None (Some False) =
     ([GetScholar ''o3-mini'' (Some ''u1'') None False], Inl (PyException ''no scholar''))"
  using C1_get_agent_dispatch [of "Member SAGE" example_builders "''o3-mini''" "Some ''u1''" None False]
        C1_get_agent_dispatch [of "PyStr ''sage''" example_builders "''o3-mini''" "Some ''u1''" None False]
  by (simp add: example_builders_def)

text \<open>
  Claim C2: \<^verbatim>\<open>get_model_provider\<close> is a function of its argument alone, defined on every
  string, and compares characters exactly: it returns \<^verbatim>\<open>GROQ\<close> exactly for the strings
  that start with \<^verbatim>\<open>llama\<close> or with \<^verbatim>\<open>mixtral\<close>, and \<^verbatim>\<open>OPENAI\<close> for every other
  string, among them the empty string and \<^verbatim>\<open>Llama\<close>.
\<close>

theorem C2_get_model_provider:
  "(get_model_provider m = GROQ \<longleftrightarrow> prefix ''llama'' m \<or> prefix ''mixtral'' m)
   \<and> (get_model_provider m = OPENAI \<longleftrightarrow> \<not> (prefix ''llama'' m \<or> prefix ''mixtral'' m))
   \<and> get_model_provider (''llama'' @ rest) = GROQ
   \<and> get_model_provider (''mixtral'' @ rest) = GROQ
   \<and> get_model_provider [] = OPENAI
   \<and> get_model_provider ''Llama'' = OPENAI
   \<and> get_model_provider ''MIXTRAL-8x7b'' = OPENAI"
  by (simp add: get_model_provider_def startswith_iff_prefix)

text \<open>
  Claim C6: \<^verbatim>\<open>get_available_models()\<close> returns the five catalog entries in declaration
  order, and each entry's provider is the one \<^verbatim>\<open>get_model_provider\<close> computes for its
  identifier.
\<close>

theorem C6_catalog:
  "get_available_models =
     [(''gpt-4o'', OPENAI), (''o3-mini'', OPENAI), (''llama-3.3-70b-versatile'', GROQ),
      (''llama-3.3-8b-versatile'', GROQ), (''mixtral-8x7b-32768'', GROQ)]
   \<and> map fst get_available_models =
     [''gpt-4o'', ''o3-mini'', ''llama-3.3-70b-versatile'', ''llama-3.3-8b-versatile'',
      ''mixtral-8x7b-32768'']
   \<and> length get_available_models = 5
   \<and> list_all (\<lambda>(model_id, provider). provider = get_model_provider model_id) get_available_models"
  by (simp add: get_available_models_def get_model_provider_def)

text \<open>
  Claim C7: \<^verbatim>\<open>get_available_agents()\<close> returns the list of \<^verbatim>\<open>sage\<close> and \<^verbatim>\<open>scholar\<close> in
  that order, and \<^verbatim>\<open>GET /agents\<close> (\<^verbatim>\<open>list_agents\<close>) answers with that list and status 200.
\<close>

theorem C7_agents:
  "get_available_agents = [''sage'', ''scholar'']
   \<and> list_agents = Response 200 (JSON_list get_available_agents)
   \<and> list_agents = Response 200 (JSON_list [''sage'', ''scholar''])"
  by (simp add: get_available_agents_def AgentType_members_def list_agents_def default_status_code_def)

section \<open>The streaming relay\<close>

text \<open>
  Claim C3: for every agent and message, \<^verbatim>\<open>chat_response_streamer\<close> yields the contents of
  the chunks that the agent's streaming run produced, one fragment per chunk and in the
  order produced: the yielded sequence is the content projection mapped over the
  produced chunks. It ends as the run ends, and yields nothing when the run cannot start.
\<close>

theorem C3_stream_relay:
  "yielded (chat_response_streamer agent msg) =
     (case arun_stream agent msg of Inl e \<Rightarrow> [] | Inr s \<Rightarrow> map content (produced s))
   \<and> raised (chat_response_streamer agent msg) =
     (case arun_stream agent msg of Inl e \<Rightarrow> Some e | Inr s \<Rightarrow> ended_by s)
   \<and> calls (chat_response_streamer agent msg) = [Arun msg True]"
  by (simp add: chat_response_streamer_def async_for_acc split: sum.splits)

theorem C3_witness:
  "yielded (chat_response_streamer example_agent ''hi'') = [''echo: '', ''hi'']
   \<and> raised (chat_response_streamer example_agent ''hi'') = None"
  using C3_stream_relay [of example_agent "''hi''"]
  by (simp add: example_agent_def)

section \<open>The run endpoint\<close>

text \<open>
  Claim C4 as stated fails: when the builder raises an exception that is no instance of
  \<^verbatim>\<open>Exception\<close> (here a \<^verbatim>\<open>SystemExit\<close>), \<^verbatim>\<open>except Exception\<close> does not catch it, and
  \<^verbatim>\<open>run_agent\<close> ends with that exception, not with status 404.
\<close>

theorem C4_counterexample:
  "snd (get_agent exiting_builders (Some (Model_value (model example_request))) (Member SAGE)
          (user_id example_request) (session_id example_request) None)
     = Inl (PyBaseException ''missing credentials'')
   \<and> run_agent exiting_builders SAGE example_request
     = ([GetSage ''gpt-4o'' None None True], Unhandled (PyBaseException ''missing credentials''))
   \<and> snd (run_agent exiting_builders SAGE example_request)
     \<noteq> HTTPException 404 (''Agent not found: missing credentials'')"
  by (simp add: run_agent_def get_agent_def exiting_builders_def example_request_def
        Model_value_Abs Model_members_eq)

text \<open>
  Claim C4, amended: when \<^verbatim>\<open>get_agent\<close> raises an exception that is an instance of
  \<^verbatim>\<open>Exception\<close>, \<^verbatim>\<open>run_agent\<close> answers with status 404 and the detail
  \<^verbatim>\<open>Agent not found: \<close> followed by the exception's message; an exception that is no
  instance of \<^verbatim>\<open>Exception\<close> leaves \<^verbatim>\<open>run_agent\<close> unchanged. In both cases the call log
  is that of \<^verbatim>\<open>get_agent\<close>: no run of an agent, streaming or not, is made.
\<close>

theorem C4_construction_failure:
  "snd (get_agent bs (Some (Model_value (model body))) (Member aid) (user_id body) (session_id body) None)
     = Inl e \<Longrightarrow>
   (isinstance_Exception e \<longrightarrow>
      snd (run_agent bs aid body) = HTTPException 404 (''Agent not found: '' @ str_of_exception e))
   \<and> (\<not> isinstance_Exception e \<longrightarrow> snd (run_agent bs aid body) = Unhandled e)
   \<and> filter is_run_call (fst (run_agent bs aid body)) = []
   \<and> fst (run_agent bs aid body)
       = fst (get_agent bs (Some (Model_value (model body))) (Member aid) (user_id body) (session_id body) None)"
  by (cases "get_agent bs (Some (Model_value (model body))) (Member aid) (user_id body) (session_id body) None")
     (auto simp: run_agent_def HTTP_404_NOT_FOUND_def get_agent_unfold split: if_splits)

theorem C4_witness:
  "snd (get_agent example_builders (Some (Model_value (model example_request))) (Member SCHOLAR)
          (user_id example_request) (session_id example_request) None)
     = Inl (PyException ''no scholar'')
   \<and> run_agent example_builders SCHOLAR example_request
     = ([GetScholar ''gpt-4o'' None None True], HTTPException 404 ''Agent not found: no scholar'')"
proof -
  have h: "snd (get_agent example_builders (Some (Model_value (model example_request))) (Member SCHOLAR)
          (user_id example_request) (session_id example_request) None)
     = Inl (PyException ''no scholar'')"
    by (simp add: get_agent_def example_builders_def)
  have m: "Model_value (model example_request) = ''gpt-4o''"
    by (simp add: example_request_def Model_value_Abs Model_members_eq)
  from C4_construction_failure [OF h] m show ?thesis
    using h by (simp add: prod_eq_iff get_agent_unfold example_request_def)
qed

text \<open>
  Claim C5: when the stream flag is false and \<^verbatim>\<open>get_agent\<close> returns an agent,
  \<^verbatim>\<open>run_agent\<close> makes exactly one run call, the non-streaming run with the request's
  message, and when that run completes with a response, \<^verbatim>\<open>run_agent\<close> answers with status
  200 and the response's text content as the body.
\<close>

theorem C5_non_streaming_run:
  "\<not> stream body \<Longrightarrow>
   snd (get_agent bs (Some (Model_value (model body))) (Member aid) (user_id body) (session_id body) None)
     = Inr agent \<Longrightarrow>
   filter is_run_call (fst (run_agent bs aid body)) = [Arun (message body) False]
   \<and> (\<forall>r. arun agent (message body) = Inr r \<longrightarrow>
         snd (run_agent bs aid body) = Response 200 (JSON_str (content r)))"
  by (cases "get_agent bs (Some (Model_value (model body))) (Member aid) (user_id body) (session_id body) None")
     (auto simp: run_agent_def HTTP_200_OK_def get_agent_unfold split: if_splits sum.splits)

theorem C5_witness:
  "\<not> stream example_request
   \<and> snd (get_agent example_builders (Some (Model_value (model example_request))) (Member SAGE)
          (user_id example_request) (session_id example_request) None) = Inr example_agent
   \<and> arun example_agent (message example_request) = Inr \<lparr>content = ''echo: hello''\<rparr>
   \<and> filter is_run_call (fst (run_agent example_builders SAGE example_request)) = [Arun ''hello'' False]
   \<and> snd (run_agent example_builders SAGE example_request) = Response 200 (JSON_str ''echo: hello'')"
proof -
  have s: "\<not> stream example_request" by (simp add: example_request_def)
  have h: "snd (get_agent example_builders (Some (Model_value (model example_request))) (Member SAGE)
          (user_id example_request) (session_id example_request) None) = Inr example_agent"
    by (simp add: get_agent_def example_builders_def)
  have r: "arun example_agent (message example_request) = Inr \<lparr>content = ''echo: hello''\<rparr>"
    by (simp add: example_agent_def example_request_def)
  have msg: "message example_request = ''hello''" by (simp add: example_request_def)
  from C5_non_streaming_run [OF s h] r msg show ?thesis
    using s h by simp
qed

text \<open>
  Claim C10: \<^verbatim>\<open>run_agent\<close> passes no \<^verbatim>\<open>debug_mode\<close> to \<^verbatim>\<open>get_agent\<close>, whose default is
  \<^verbatim>\<open>True\<close>. For every request, \<^verbatim>\<open>get_agent\<close> as \<^verbatim>\<open>run_agent\<close> calls it applies the
  builder selected by \<^verbatim>\<open>agent_id\<close> to the request's model value, user and session
  identifiers and \<^verbatim>\<open>debug_mode\<close> equal to \<^verbatim>\<open>True\<close>; the call log of \<^verbatim>\<open>run_agent\<close> has
  exactly that one builder call; and the outcome of \<^verbatim>\<open>run_agent\<close> is computed from what
  that application returned or raised: the agent that is run is the one the builder made
  with \<^verbatim>\<open>debug_mode\<close> equal to \<^verbatim>\<open>True\<close>.
\<close>

theorem C10_debug_mode:
  "get_agent bs (Some (Model_value (model body))) (Member aid) (user_id body) (session_id body) None
     = (if aid = SAGE
        then ([GetSage (Model_value (model body)) (user_id body) (session_id body) True],
              get_sage bs (Model_value (model body)) (user_id body) (session_id body) True)
        else ([GetScholar (Model_value (model body)) (user_id body) (session_id body) True],
              get_scholar bs (Model_value (model body)) (user_id body) (session_id body) True))
   \<and> filter is_builder_call (fst (run_agent bs aid body)) =
     [if aid = SAGE
      then GetSage (Model_value (model body)) (user_id body) (session_id body) True
      else GetScholar (Model_value (model body)) (user_id body) (session_id body) True]
   \<and> run_agent bs aid body =
     (case (if aid = SAGE
            then get_sage bs (Model_value (model body)) (user_id body) (session_id body) True
            else get_scholar bs (Model_value (model body)) (user_id body) (session_id body) True) of
        Inl e \<Rightarrow>
          ([if aid = SAGE
            then GetSage (Model_value (model body)) (user_id body) (session_id body) True
            else GetScholar (Model_value (model body)) (user_id body) (session_id body) True],
           if isinstance_Exception e
           then HTTPException 404 (''Agent not found: '' @ str_of_exception e)
           else Unhandled e)
      | Inr agent \<Rightarrow>
          ([if aid = SAGE
            then GetSage (Model_value (model body)) (user_id body) (session_id body) True
            else GetScholar (Model_value (model body)) (user_id body) (session_id body) True,
            Arun (message body) (stream body)],
           if stream body
           then Response 200 (StreamingResponse
                  (yielded (chat_response_streamer agent (message body)))
                  (raised (chat_response_streamer agent (message body)))
                  ''text/event-stream'')
           else (case arun agent (message body) of
                   Inl e \<Rightarrow> Unhandled e
                 | Inr response \<Rightarrow> Response 200 (JSON_str (content response)))))"
proof -
  have a: "get_agent bs (Some (Model_value (model body))) (Member aid) (user_id body) (session_id body) None
     = (if aid = SAGE
        then ([GetSage (Model_value (model body)) (user_id body) (session_id body) True],
              get_sage bs (Model_value (model body)) (user_id body) (session_id body) True)
        else ([GetScholar (Model_value (model body)) (user_id body) (session_id body) True],
              get_scholar bs (Model_value (model body)) (user_id body) (session_id body) True))"
    by (simp add: get_agent_unfold)
  have b: "filter is_builder_call (fst (run_agent bs aid body)) =
     [if aid = SAGE
      then GetSage (Model_value (model body)) (user_id body) (session_id body) True
      else GetScholar (Model_value (model body)) (user_id body) (session_id body) True]"
    using run_agent_calls [of bs aid body] by (auto simp: run_calls_no_builder)
  have c: "run_agent bs aid body =
     (case (if aid = SAGE
            then get_sage bs (Model_value (model body)) (user_id body) (session_id body) True
            else get_scholar bs (Model_value (model body)) (user_id body) (session_id body) True) of
        Inl e \<Rightarrow>
          ([if aid = SAGE
            then GetSage (Model_value (model body)) (user_id body) (session_id body) True
            else GetScholar (Model_value (model body)) (user_id body) (session_id body) True],
           if isinstance_Exception e
           then HTTPException 404 (''Agent not found: '' @ str_of_exception e)
           else Unhandled e)
      | Inr agent \<Rightarrow>
          ([if aid = SAGE
            then GetSage (Model_value (model body)) (user_id body) (session_id body) True
            else GetScholar (Model_value (model body)) (user_id body) (session_id body) True,
            Arun (message body) (stream body)],
           if stream body
           then Response 200 (StreamingResponse
                  (yielded (chat_response_streamer agent (message body)))
                  (raised (chat_response_streamer agent (message body)))
                  ''text/event-stream'')
           else (case arun agent (message body) of
                   Inl e \<Rightarrow> Unhandled e
                 | Inr response \<Rightarrow> Response 200 (JSON_str (content response)))))"
    by (simp add: run_agent_def get_agent_unfold calls_streamer Let_def
          HTTP_200_OK_def HTTP_404_NOT_FOUND_def split: sum.splits)
  from a b c show ?thesis by (intro conjI)
qed

theorem C10_witness:
  "run_agent flag_builders SAGE example_request
     = ([GetSage ''gpt-4o'' None None True, Arun ''hello'' False], Response 200 (JSON_str ''debug''))
   \<and> run_agent flag_builders SCHOLAR example_request
     = ([GetScholar ''gpt-4o'' None None True], HTTPException 404 ''Agent not found: debug'')
   \<and> snd (get_agent flag_builders (Some ''gpt-4o'') (Member SAGE) None None None)
     = Inr (flag_agent True)"
proof -
  have m: "Model_value (model example_request) = ''gpt-4o''"
    by (simp add: example_request_def Model_value_Abs Model_members_eq)
  have f: "message example_request = ''hello''" "stream example_request = False"
    "user_id example_request = None" "session_id example_request = None"
    by (simp_all add: example_request_def)
  from C10_debug_mode [of flag_builders example_request SAGE]
       C10_debug_mode [of flag_builders example_request SCHOLAR]
  show ?thesis
    by (simp add: m f flag_builders_def flag_agent_def)
qed

section \<open>Request validation\<close>

text \<open>
  Claim C8: a \<^verbatim>\<open>POST\<close> to \<^verbatim>\<open>/agents/{agent_id}/runs\<close> whose path value is neither
  \<^verbatim>\<open>sage\<close> nor \<^verbatim>\<open>scholar\<close> is rejected with the validation error of status 422; the call
  log is empty, so \<^verbatim>\<open>run_agent\<close> made no call and no agent was constructed.
\<close>

theorem C8_invalid_agent_id:
  "p \<noteq> ''sage'' \<Longrightarrow> p \<noteq> ''scholar'' \<Longrightarrow>
     post_agent_runs bs p f = ([], RequestValidationError 422)"
  by (simp add: post_agent_runs_def AgentType_of_value_None HTTP_422_UNPROCESSABLE_ENTITY_def)

theorem C8_witness:
  "''bogus'' \<noteq> ''sage'' \<and> ''bogus'' \<noteq> ''scholar''
   \<and> post_agent_runs example_builders ''bogus'' example_fields = ([], RequestValidationError 422)
   \<and> fst (post_agent_runs example_builders ''sage'' example_fields)
       = [GetSage ''gpt-4o'' None None True, Arun ''hello'' False]"
proof -
  have a: "''bogus'' \<noteq> ''sage''" and b: "''bogus'' \<noteq> ''scholar''" by simp_all
  have c: "fst (post_agent_runs example_builders ''sage'' example_fields)
       = [GetSage ''gpt-4o'' None None True, Arun ''hello'' False]"
    by (simp add: post_agent_runs_def AgentType_of_value_Some validate_RunRequest_def
          example_fields_def RunRequest_model_default_value run_agent_def get_agent_unfold
          Model_value_Abs Model_members_eq example_builders_def example_agent_def)
  from C8_invalid_agent_id [OF a b, of example_builders example_fields] c show ?thesis
    by simp
qed

text \<open>
  Claim C9: the \<^verbatim>\<open>Model\<close> enumeration is built from \<^verbatim>\<open>get_available_models()\<close>, so the
  model value of every request that reaches \<^verbatim>\<open>run_agent\<close> is one of the catalog's
  identifiers, and every builder call made by \<^verbatim>\<open>run_agent\<close>, and so by the endpoint, carries
  a catalog identifier; a request whose model string is not in the catalog is rejected
  with the validation error before any call is made.
\<close>

theorem C9_catalog_models_only:
  "Model_value (model body) \<in> set (map fst get_available_models)
   \<and> list_all (\<lambda>c. case call_model_id c of None \<Rightarrow> True
                  | Some m \<Rightarrow> m \<in> set (map fst get_available_models))
       (fst (run_agent bs aid body))
   \<and> list_all (\<lambda>c. case call_model_id c of None \<Rightarrow> True
                  | Some m \<Rightarrow> m \<in> set (map fst get_available_models))
       (fst (post_agent_runs bs p f))
   \<and> (model_field f = Some s \<and> s \<notin> set (map fst get_available_models) \<longrightarrow>
        post_agent_runs bs p f = ([], RequestValidationError 422))"
  by (auto simp: run_agent_catalog Model_value_in_catalog post_agent_runs_def
        validate_RunRequest_def Model_of_value_None HTTP_422_UNPROCESSABLE_ENTITY_def
        simp del: set_map split: option.splits)

theorem C9_witness:
  "model_field (example_fields\<lparr>model_field := Some ''gpt-5''\<rparr>) = Some ''gpt-5''
   \<and> ''gpt-5'' \<notin> set (map fst get_available_models)
   \<and> post_agent_runs example_builders ''sage'' (example_fields\<lparr>model_field := Some ''gpt-5''\<rparr>)
       = ([], RequestValidationError 422)
   \<and> fst (post_agent_runs example_builders ''sage''
            (example_fields\<lparr>model_field := Some ''o3-mini''\<rparr>))
       = [GetSage ''o3-mini'' None None True, Arun ''hello'' False]"
proof -
  have a: "model_field (example_fields\<lparr>model_field := Some ''gpt-5''\<rparr>) = Some ''gpt-5''" by simp
  have b: "''gpt-5'' \<notin> set (map fst get_available_models)"
    by (simp add: get_available_models_def)
  have c: "fst (post_agent_runs example_builders ''sage''
            (example_fields\<lparr>model_field := Some ''o3-mini''\<rparr>))
       = [GetSage ''o3-mini'' None None True, Arun ''hello'' False]"
    by (simp add: post_agent_runs_def AgentType_of_value_Some validate_RunRequest_def
          example_fields_def Model_of_value_def run_agent_def get_agent_unfold
          Model_value_Abs Model_members_eq example_builders_def example_agent_def)
  from C9_catalog_models_only [of example_request example_builders SAGE "''sage''"
         "example_fields\<lparr>model_field := Some ''gpt-5''\<rparr>" "''gpt-5''"] a b c
  show ?thesis by simp
qed

end
